theory Spec2Isabelle
  imports Complex_Main
begin

section \<open>Numbers, vectors and errors\<close>

text \<open>
  The module \<^verbatim>\<open>manim/mobject/number_line.py\<close> computes with Python numbers and numpy
  arrays. Numbers are modelled as exact reals: rounding of IEEE doubles is not part of the
  model, so every statement below is about the arithmetic the code writes down. The one
  place where the code produces a value that is not a number (a numpy division by zero
  gives \<^verbatim>\<open>nan\<close> or \<^verbatim>\<open>inf\<close> and a warning, not an exception) is modelled by
  \<open>None\<close>; a Python division by zero raises and is modelled by \<open>Inl ZeroDivisionError\<close>.
\<close>

datatype error =
    ValueError           \<comment> \<open>unpacking an \<^verbatim>\<open>x_range\<close> that has not three entries\<close>
  | ZeroDivisionError    \<comment> \<open>Python's \<^verbatim>\<open>/\<close> with a zero divisor\<close>
  | ArangeZeroStep       \<comment> \<open>\<^verbatim>\<open>np.arange\<close> with step 0 raises (ZeroDivisionError on
                             integers, ValueError on floats)\<close>

type_synonym vec = "real \<times> real \<times> real"

text \<open>A point whose coordinates are \<^verbatim>\<open>nan\<close> is \<open>None\<close>.\<close>

type_synonym point = "vec option"

definition ORIGIN :: vec where "ORIGIN = (0, 0, 0)"
definition UP :: vec where "UP = (0, 1, 0)"
definition DOWN :: vec where "DOWN = (0, -1, 0)"
definition RIGHT :: vec where "RIGHT = (1, 0, 0)"
definition LEFT :: vec where "LEFT = (-1, 0, 0)"

fun vadd :: "vec \<Rightarrow> vec \<Rightarrow> vec" where
  "vadd (a, b, c) (x, y, z) = (a + x, b + y, c + z)"

fun vsub :: "vec \<Rightarrow> vec \<Rightarrow> vec" where
  "vsub (a, b, c) (x, y, z) = (a - x, b - y, c - z)"

fun smul :: "real \<Rightarrow> vec \<Rightarrow> vec" where
  "smul k (x, y, z) = (k * x, k * y, k * z)"


fun vnorm :: "vec \<Rightarrow> real" where
  "vnorm (x, y, z) = sqrt (x * x + y * y + z * z)"

text \<open>\<^verbatim>\<open>direction[0]\<close>: the horizontal component.\<close>

fun component0 :: "vec \<Rightarrow> real" where
  "component0 (x, y, z) = x"

section \<open>numpy\<close>

text \<open>
  \<^verbatim>\<open>np.arange(start, stop, step)\<close>: the values \<open>start + k * step\<close> of the half-open
  interval from \<open>start\<close> to \<open>stop\<close>; there are \<open>\<lceil>(stop - start) / step\<rceil>\<close> of them (none
  when that is not positive). A zero step raises.
\<close>

definition arange :: "real \<Rightarrow> real \<Rightarrow> real \<Rightarrow> error + real list" where
  "arange start stop step =
     (if step = 0 then Inl ArangeZeroStep
      else Inr (map (\<lambda>k. start + real k * step) [0..<nat \<lceil>(stop - start) / step\<rceil>]))"

text \<open>\<^verbatim>\<open>np.unique\<close>: the sorted distinct elements, compared by exact equality.\<close>

definition unique :: "real list \<Rightarrow> real list" where
  "unique xs = sort (remdups xs)"

section \<open>The number line\<close>

text \<open>
  A tick mark (\<^verbatim>\<open>get_tick\<close>) is a short segment of half-length \<open>tick_len\<close> centred at
  \<open>tick_pos\<close>; a number label (\<^verbatim>\<open>get_number_mobject\<close>) is placed next to \<open>label_anchor\<close> in
  direction \<open>label_dir\<close> at distance \<open>label_buff\<close>, and then moved by \<open>label_shift\<close>.
\<close>

record tick =
  tick_number :: real
  tick_len :: real
  tick_pos :: point

record label =
  label_number :: real
  label_dir :: vec
  label_buff :: real
  label_anchor :: point
  label_shift :: vec

text \<open>
  The attributes of a \<^verbatim>\<open>NumberLine\<close> instance. \<open>segment\<close> is the pair
  \<^verbatim>\<open>(get_start(), get_end())\<close> of the underlying \<^verbatim>\<open>Line\<close> (\<open>None\<close>: the coordinates are
  \<^verbatim>\<open>nan\<close>); \<open>ticks\<close> and \<open>numbers\<close> are \<open>None\<close> until \<^verbatim>\<open>add_ticks\<close> and \<^verbatim>\<open>add_numbers\<close>
  set them. Colour, stroke width, tip size and the decimal-number configuration only
  style the drawing and are left out.
\<close>

record number_line =
  x_min :: real
  x_max :: real
  x_step :: real
  length_attr :: "real option"
  unit_size :: "real option"
  include_ticks :: bool
  tick_size :: real
  numbers_with_elongated_ticks :: "real list"
  longer_tick_multiple :: real
  exclude_origin_tick :: bool
  rotation :: real
  include_tip :: bool
  include_numbers :: bool
  label_direction :: vec
  line_to_number_buff :: real
  numbers_to_exclude :: "real list"
  numbers_to_include :: "real list option"
  number_scale_value :: real
  segment :: "(vec \<times> vec) option"
  tip :: bool
  ticks :: "tick list option"
  numbers :: "label list option"

subsection \<open>\<^verbatim>\<open>get_tick_range\<close>\<close>

text \<open>The local variable \<^verbatim>\<open>x_max\<close> of \<^verbatim>\<open>get_tick_range\<close>: the effective upper bound.\<close>

definition effective_x_max :: "number_line \<Rightarrow> real" where
  "effective_x_max self =
     (if include_tip self then x_max self else x_max self + 1 / 1000000)"

definition get_tick_range :: "number_line \<Rightarrow> error + real list" where
  "get_tick_range self =
     (let x_max' = effective_x_max self in
      if (x_min self < x_max' \<and> x_max' < 0) \<or> (x_max self > x_min self \<and> x_min self > 0)
      then arange (x_min self) x_max' (x_step self)
      else
        let start_point = (if exclude_origin_tick self then 0 + x_step self else 0) in
        case arange start_point (\<bar>x_min self\<bar> + 1 / 1000000) (x_step self) of
          Inl e \<Rightarrow> Inl e
        | Inr neg \<Rightarrow>
            let x_min_segment = map (\<lambda>v. v * (-1)) neg in
            (case arange start_point x_max' (x_step self) of
               Inl e \<Rightarrow> Inl e
             | Inr x_max_segment \<Rightarrow> Inr (unique (x_min_segment @ x_max_segment))))"

subsection \<open>Geometry of the underlying segment\<close>


definition interpolate_vec :: "vec \<Rightarrow> vec \<Rightarrow> real \<Rightarrow> vec" where
  "interpolate_vec start stop alpha = vadd (smul (1 - alpha) start) (smul alpha stop)"


definition fdiv :: "real \<Rightarrow> real \<Rightarrow> real option" where
  "fdiv a b = (if b = 0 then None else Some (a / b))"

definition get_center :: "vec \<times> vec \<Rightarrow> vec" where
  "get_center seg = smul (1 / 2) (vadd (fst seg) (snd seg))"

definition get_length :: "vec \<times> vec \<Rightarrow> real" where
  "get_length seg = vnorm (vsub (fst seg) (snd seg))"

definition scale_about :: "real \<Rightarrow> vec \<Rightarrow> vec \<Rightarrow> vec" where
  "scale_about factor c p = vadd c (smul factor (vsub p c))"

definition scale :: "real \<Rightarrow> vec \<times> vec \<Rightarrow> vec \<times> vec" where
  "scale factor seg =
     (scale_about factor (get_center seg) (fst seg), scale_about factor (get_center seg) (snd seg))"

text \<open>\<^verbatim>\<open>set_length\<close> scales by \<open>length / get_length()\<close>, a numpy quotient.\<close>

definition set_length :: "real \<Rightarrow> vec \<times> vec \<Rightarrow> (vec \<times> vec) option" where
  "set_length l seg = map_option (\<lambda>factor. scale factor seg) (fdiv l (get_length seg))"

definition center :: "vec \<times> vec \<Rightarrow> vec \<times> vec" where
  "center seg = (vsub (fst seg) (get_center seg), vsub (snd seg) (get_center seg))"

fun rotate_vec :: "real \<Rightarrow> vec \<Rightarrow> vec" where
  "rotate_vec angle (x, y, z) = (x * cos angle - y * sin angle, x * sin angle + y * cos angle, z)"

definition rotate_about :: "real \<Rightarrow> vec \<Rightarrow> vec \<Rightarrow> vec" where
  "rotate_about angle c p = vadd c (rotate_vec angle (vsub p c))"

subsection \<open>Coordinate transforms\<close>

text \<open>
  \<^verbatim>\<open>number_to_point\<close> divides with Python's \<^verbatim>\<open>/\<close>, which raises on a zero divisor;
  \<^verbatim>\<open>point_to_number\<close> divides with \<^verbatim>\<open>fdiv\<close>.
\<close>

definition number_to_point :: "number_line \<Rightarrow> real \<Rightarrow> error + point" where
  "number_to_point self number =
     (if x_max self - x_min self = 0 then Inl ZeroDivisionError
      else
        let alpha = (number - x_min self) / (x_max self - x_min self) in
        Inr (map_option (\<lambda>(start, stop). interpolate_vec start stop alpha) (segment self)))"



text \<open>
  \<^verbatim>\<open>get_unit_size\<close> divides the numpy value \<^verbatim>\<open>get_length()\<close>: a zero width gives a value
  that is not a number, and no exception.
\<close>

definition get_unit_size :: "number_line \<Rightarrow> real option" where
  "get_unit_size self =
     (case segment self of
        None \<Rightarrow> None
      | Some seg \<Rightarrow> fdiv (get_length seg) (x_max self - x_min self))"

subsection \<open>Ticks\<close>

definition get_tick :: "number_line \<Rightarrow> real \<Rightarrow> real option \<Rightarrow> error + tick" where
  "get_tick self x size_arg =
     (let size = (case size_arg of None \<Rightarrow> tick_size self | Some s \<Rightarrow> s) in
      case number_to_point self x of
        Inl e \<Rightarrow> Inl e
      | Inr p \<Rightarrow> Inr \<lparr> tick_number = x, tick_len = size, tick_pos = p \<rparr>)"

text \<open>The loop of \<^verbatim>\<open>add_ticks\<close> over the tick range.\<close>

fun add_ticks_loop :: "number_line \<Rightarrow> real \<Rightarrow> real list \<Rightarrow> error + tick list" where
  "add_ticks_loop self elongated_tick_size [] = Inr []"
| "add_ticks_loop self elongated_tick_size (x # xs) =
     (let size = (if x \<in> set (numbers_with_elongated_ticks self)
                  then elongated_tick_size else tick_size self) in
      case get_tick self x (Some size) of
        Inl e \<Rightarrow> Inl e
      | Inr t \<Rightarrow>
          (case add_ticks_loop self elongated_tick_size xs of
             Inl e \<Rightarrow> Inl e
           | Inr ts \<Rightarrow> Inr (t # ts)))"

definition add_ticks :: "number_line \<Rightarrow> error + number_line" where
  "add_ticks self =
     (let elongated_tick_size = tick_size self * longer_tick_multiple self in
      case get_tick_range self of
        Inl e \<Rightarrow> Inl e
      | Inr xs \<Rightarrow>
          (case add_ticks_loop self elongated_tick_size xs of
             Inl e \<Rightarrow> Inl e
           | Inr ts \<Rightarrow> Inr (self\<lparr>ticks := Some ts\<rparr>)))"

subsection \<open>Number labels\<close>

text \<open>
  Modelled from the spec: the label renderer \<^verbatim>\<open>DecimalNumber\<close> is not part of this
  module. It exposes the width of the first glyph of a label; \<open>glyph_width x k\<close> stands
  for \<^verbatim>\<open>num_mob[0].get_width()\<close> of the label of the number \<open>x\<close> scaled by \<open>k\<close>.
\<close>

type_synonym renderer = "real \<Rightarrow> real \<Rightarrow> real"

definition get_number_mobject ::
    "renderer \<Rightarrow> number_line \<Rightarrow> real \<Rightarrow> vec option \<Rightarrow> real option \<Rightarrow> error + label" where
  "get_number_mobject glyph_width self x direction_arg buff_arg =
     (let direction = (case direction_arg of None \<Rightarrow> label_direction self | Some d \<Rightarrow> d);
          buff = (case buff_arg of None \<Rightarrow> line_to_number_buff self | Some b \<Rightarrow> b) in
      case number_to_point self x of
        Inl e \<Rightarrow> Inl e
      | Inr p \<Rightarrow>
          Inr \<lparr> label_number = x, label_dir = direction, label_buff = buff, label_anchor = p,
                label_shift =
                  (if x < 0 \<and> component0 (label_direction self) = 0
                   then smul (glyph_width x (number_scale_value self) / 2) LEFT
                   else ORIGIN) \<rparr>)"

text \<open>The loop of \<^verbatim>\<open>add_numbers\<close> over the values to label.\<close>

fun add_numbers_loop ::
    "renderer \<Rightarrow> number_line \<Rightarrow> real list \<Rightarrow> real list \<Rightarrow> error + label list" where
  "add_numbers_loop glyph_width self excluding [] = Inr []"
| "add_numbers_loop glyph_width self excluding (x # xs) =
     (if x \<in> set excluding then add_numbers_loop glyph_width self excluding xs
      else
        case get_number_mobject glyph_width self x None None of
          Inl e \<Rightarrow> Inl e
        | Inr l \<Rightarrow>
            (case add_numbers_loop glyph_width self excluding xs of
               Inl e \<Rightarrow> Inl e
             | Inr ls \<Rightarrow> Inr (l # ls)))"

definition add_numbers ::
    "renderer \<Rightarrow> number_line \<Rightarrow> real list option \<Rightarrow> real list option \<Rightarrow> error + number_line" where
  "add_numbers glyph_width self x_values_arg excluding_arg =
     (case (case x_values_arg of None \<Rightarrow> get_tick_range self | Some xs \<Rightarrow> Inr xs) of
        Inl e \<Rightarrow> Inl e
      | Inr x_values \<Rightarrow>
          let excluding = (case excluding_arg of None \<Rightarrow> numbers_to_exclude self | Some ex \<Rightarrow> ex) in
          (case add_numbers_loop glyph_width self excluding x_values of
             Inl e \<Rightarrow> Inl e
           | Inr ls \<Rightarrow> Inr (self\<lparr>numbers := Some ls\<rparr>)))"

subsection \<open>Construction\<close>

text \<open>
  The arguments of \<^verbatim>\<open>NumberLine.__init__\<close> (those that only style the drawing are left
  out), and the frame half-width \<^verbatim>\<open>config["frame_x_radius"]\<close> that the default range reads.
\<close>

record config =
  x_range :: "real list option"
  kw_length :: "real option"
  kw_unit_size :: real
  kw_include_ticks :: bool
  kw_tick_size :: real
  kw_numbers_with_elongated_ticks :: "real list option"
  kw_longer_tick_multiple :: real
  kw_rotation :: real
  kw_include_tip :: bool
  kw_include_numbers :: bool
  kw_label_direction :: vec
  kw_line_to_number_buff :: real
  kw_numbers_to_exclude :: "real list option"
  kw_numbers_to_include :: "real list option"
  kw_number_scale_value :: real
  kw_exclude_origin_tick :: bool
  frame_x_radius :: real

text \<open>Python's \<^verbatim>\<open>round\<close>: to the nearest integer, a tie to the even one.\<close>

definition py_round :: "real \<Rightarrow> int" where
  "py_round x =
     (let f = \<lfloor>x\<rfloor>; r = x - of_int f in
      if r < 1 / 2 then f else if r > 1 / 2 then f + 1 else if even f then f else f + 1)"

text \<open>Python's truth value of \<^verbatim>\<open>self.length\<close>: \<^verbatim>\<open>None\<close> and \<open>0\<close> are false.\<close>

definition truthy :: "real option \<Rightarrow> bool" where
  "truthy l = (case l of None \<Rightarrow> False | Some v \<Rightarrow> v \<noteq> 0)"

text \<open>
  \<^verbatim>\<open>self.rotate(angle)\<close> turns the line and the ticks it owns about the centre of the
  segment.
\<close>

definition rotate :: "real \<Rightarrow> number_line \<Rightarrow> number_line" where
  "rotate angle self =
     (case segment self of
        None \<Rightarrow> self
      | Some seg \<Rightarrow>
          self\<lparr> segment := Some (rotate_about angle (get_center seg) (fst seg),
                                 rotate_about angle (get_center seg) (snd seg)),
                ticks := map_option
                  (map (\<lambda>t. t\<lparr>tick_pos := map_option (rotate_about angle (get_center seg)) (tick_pos t)\<rparr>))
                  (ticks self) \<rparr>)"

text \<open>\<^verbatim>\<open>add_tip\<close> attaches the arrowhead; start and end of the line stay.\<close>

definition add_tip :: "number_line \<Rightarrow> number_line" where
  "add_tip self = self\<lparr>tip := True\<rparr>"

text \<open>Lines 156 to 171: the defaults of the list arguments and of the range.\<close>

definition normalized_x_range :: "config \<Rightarrow> real list" where
  "normalized_x_range cfg =
     (case x_range cfg of
        None \<Rightarrow> [of_int (py_round (- frame_x_radius cfg)),
                  of_int (py_round (frame_x_radius cfg)), 1]
      | Some r \<Rightarrow> if length r = 2 then r @ [1] else r)"

text \<open>
  Lines 171 to 207: the attributes, and the line from \<open>x_min * RIGHT\<close> to \<open>x_max * RIGHT\<close>
  that \<^verbatim>\<open>super().__init__\<close> builds.
\<close>

definition init_attributes :: "config \<Rightarrow> real \<Rightarrow> real \<Rightarrow> real \<Rightarrow> number_line" where
  "init_attributes cfg a b s =
     \<lparr> x_min = a, x_max = b, x_step = s, length_attr = kw_length cfg,
       unit_size = Some (kw_unit_size cfg), include_ticks = kw_include_ticks cfg,
       tick_size = kw_tick_size cfg,
       numbers_with_elongated_ticks =
         (case kw_numbers_with_elongated_ticks cfg of None \<Rightarrow> [] | Some el \<Rightarrow> el),
       longer_tick_multiple = kw_longer_tick_multiple cfg,
       exclude_origin_tick = kw_exclude_origin_tick cfg, rotation = kw_rotation cfg,
       include_tip = kw_include_tip cfg, include_numbers = kw_include_numbers cfg,
       label_direction = kw_label_direction cfg,
       line_to_number_buff = kw_line_to_number_buff cfg,
       numbers_to_exclude = (case kw_numbers_to_exclude cfg of None \<Rightarrow> [] | Some ex \<Rightarrow> ex),
       numbers_to_include = kw_numbers_to_include cfg,
       number_scale_value = kw_number_scale_value cfg,
       segment = Some (smul a RIGHT, smul b RIGHT), tip = False, ticks = None,
       numbers = None \<rparr>"

text \<open>Lines 208 to 218: the length or the unit size, centring, the tip.\<close>

definition init_segment :: "number_line \<Rightarrow> number_line" where
  "init_segment self =
     (let self1 =
            (if truthy (length_attr self)
             then
               let resized = self\<lparr>segment :=
                     Option.bind (segment self) (\<lambda>line.
                       Option.bind (length_attr self) (\<lambda>l. set_length l line))\<rparr>
               in resized\<lparr>unit_size := get_unit_size resized\<rparr>
             else self\<lparr>segment :=
                     Option.bind (segment self) (\<lambda>line.
                       map_option (\<lambda>u. scale u line) (unit_size self))\<rparr>);
          self2 = self1\<lparr>segment := map_option center (segment self1)\<rparr> in
      if include_tip self2 then add_tip self2 else self2)"

definition NumberLine_init :: "renderer \<Rightarrow> config \<Rightarrow> error + number_line" where
  "NumberLine_init glyph_width cfg =
     (case normalized_x_range cfg of
        [a, b, s] \<Rightarrow>
          let self3 = init_segment (init_attributes cfg a b s) in
          (case (if include_ticks self3 then add_ticks self3 else Inr self3) of
             Inl e \<Rightarrow> Inl e
           | Inr self4 \<Rightarrow>
               let self5 = rotate (rotation self4) self4 in
               if include_numbers self5 \<or> numbers_to_include self5 \<noteq> None
               then add_numbers glyph_width self5 (numbers_to_include self5)
                      (Some (numbers_to_exclude self5))
               else Inr self5)
      | _ \<Rightarrow> Inl ValueError)"

text \<open>The constructor's defaults, with the given range.\<close>

definition default_config :: "real list option \<Rightarrow> config" where
  "default_config r =
     \<lparr> x_range = r, kw_length = None, kw_unit_size = 1, kw_include_ticks = True,
       kw_tick_size = 1 / 10, kw_numbers_with_elongated_ticks = None,
       kw_longer_tick_multiple = 2, kw_rotation = 0, kw_include_tip = False,
       kw_include_numbers = False, kw_label_direction = DOWN,
       kw_line_to_number_buff = 1 / 4, kw_numbers_to_exclude = None,
       kw_numbers_to_include = None, kw_number_scale_value = 3 / 4,
       kw_exclude_origin_tick = False, frame_x_radius = 64 / 9 \<rparr>"

text \<open>
  The instance on which the constructor computes the tick range, for the constructor's
  defaults and the given range, tip and origin flags (see \<open>example_line_constructed\<close>).
\<close>

definition example_line :: "real \<Rightarrow> real \<Rightarrow> real \<Rightarrow> bool \<Rightarrow> bool \<Rightarrow> number_line" where
  "example_line a b s with_tip no_origin =
     \<lparr> x_min = a, x_max = b, x_step = s, length_attr = None, unit_size = Some 1,
       include_ticks = True, tick_size = 1 / 10, numbers_with_elongated_ticks = [],
       longer_tick_multiple = 2, exclude_origin_tick = no_origin, rotation = 0,
       include_tip = with_tip, include_numbers = False, label_direction = DOWN,
       line_to_number_buff = 1 / 4, numbers_to_exclude = [], numbers_to_include = None,
       number_scale_value = 3 / 4,
       segment = Some (smul ((a - b) / 2) RIGHT, smul ((b - a) / 2) RIGHT),
       tip = with_tip, ticks = None, numbers = None \<rparr>"

section \<open>Properties of the tick range\<close>

subsection \<open>Auxiliary facts\<close>

lemma less_nat_ceiling: "(k < nat \<lceil>r::real\<rceil>) = (real k < r)"
proof -
  have "(k < nat \<lceil>r\<rceil>) = (int k < \<lceil>r\<rceil>)" by (simp add: zless_nat_eq_int_zless)
  also have "\<dots> = (of_int (int k) < r)" by (simp only: less_ceiling_iff)
  finally show ?thesis by simp
qed

lemma arange_nonzero:
  "s \<noteq> 0 \<Longrightarrow> arange a b s = Inr (map (\<lambda>k. a + real k * s) [0..<nat \<lceil>(b - a) / s\<rceil>])"
  by (simp add: arange_def)

lemma set_arange_upt:
  assumes "0 < s"
  shows "set (map (\<lambda>k. a + real k * s) [0..<nat \<lceil>(b - a) / s\<rceil>]) =
         {a + real k * s | k. a + real k * s < b}"
proof -
  have iff: "\<And>k. (k < nat \<lceil>(b - a) / s\<rceil>) = (a + real k * s < b)"
    using assms by (simp add: less_nat_ceiling pos_less_divide_eq algebra_simps)
  have "set (map (\<lambda>k. a + real k * s) [0..<nat \<lceil>(b - a) / s\<rceil>]) =
        (\<lambda>k. a + real k * s) ` {k. k < nat \<lceil>(b - a) / s\<rceil>}"
    by (simp add: atLeast0LessThan lessThan_def)
  also have "\<dots> = {a + real k * s | k. a + real k * s < b}"
    using iff by auto
  finally show ?thesis .
qed

lemma unique_eq: "unique xs = sorted_list_of_set (set xs)"
  by (simp add: unique_def sorted_list_of_set_sort_remdups)

lemma get_tick_range_straddle0:
  assumes ns: "\<not> ((x_min self < effective_x_max self \<and> effective_x_max self < 0) \<or>
                 (x_max self > x_min self \<and> x_min self > 0))"
    and s: "x_step self \<noteq> 0"
    and st: "st = (if exclude_origin_tick self then 0 + x_step self else 0)"
  shows "get_tick_range self =
     Inr (unique (map (\<lambda>v. v * (-1)) (map (\<lambda>k. st + real k * x_step self) [0..<nat \<lceil>(\<bar>x_min self\<bar> + 1 / 1000000 - st) / x_step self\<rceil>])
        @ map (\<lambda>k. st + real k * x_step self) [0..<nat \<lceil>(effective_x_max self - st) / x_step self\<rceil>]))"
proof -
  have "get_tick_range self =
      (case arange st (\<bar>x_min self\<bar> + 1 / 1000000) (x_step self) of
          Inl e \<Rightarrow> Inl e
        | Inr neg \<Rightarrow>
            (case arange st (effective_x_max self) (x_step self) of
               Inl e \<Rightarrow> Inl e
             | Inr x_max_segment \<Rightarrow> Inr (unique (map (\<lambda>v. v * (-1)) neg @ x_max_segment))))"
    unfolding get_tick_range_def Let_def st using ns by (simp only: if_False)
  then show ?thesis using s by (simp add: arange_nonzero)
qed



lemma set_negated_append:
  "set (map (\<lambda>v. v * (-1)) xs @ ys) = uminus ` set xs \<union> set (ys::real list)"
  by auto

lemma image_uminus_Collect:
  "uminus ` {f k | k. P k} = {- f k | k::nat. P k}" for f :: "nat \<Rightarrow> real"
  by blast

lemma straddle_set:
  assumes ns: "\<not> ((x_min self < effective_x_max self \<and> effective_x_max self < 0) \<or>
                 (x_max self > x_min self \<and> x_min self > 0))"
    and s: "0 < x_step self"
    and st: "st = (if exclude_origin_tick self then 0 + x_step self else 0)"
  shows "get_tick_range self =
     Inr (sorted_list_of_set
       ({- (st + real k * x_step self) | k. st + real k * x_step self < \<bar>x_min self\<bar> + 1 / 1000000} \<union>
        {st + real k * x_step self | k. st + real k * x_step self < effective_x_max self}))"
proof -
  let ?neg = "map (\<lambda>k. st + real k * x_step self) [0..<nat \<lceil>(\<bar>x_min self\<bar> + 1 / 1000000 - st) / x_step self\<rceil>]"
  let ?pos = "map (\<lambda>k. st + real k * x_step self) [0..<nat \<lceil>(effective_x_max self - st) / x_step self\<rceil>]"
  have g: "get_tick_range self = Inr (unique (map (\<lambda>v. v * (-1)) ?neg @ ?pos))"
    using get_tick_range_straddle0 [OF ns _ st] s by simp
  have "set (map (\<lambda>v. v * (-1)) ?neg @ ?pos) = uminus ` set ?neg \<union> set ?pos"
    by (rule set_negated_append)
  also have "\<dots> = {- (st + real k * x_step self) | k. st + real k * x_step self < \<bar>x_min self\<bar> + 1 / 1000000} \<union>
        {st + real k * x_step self | k. st + real k * x_step self < effective_x_max self}"
    unfolding set_arange_upt [OF s] image_uminus_Collect ..
  finally show ?thesis using g by (simp only: unique_eq)
qed









lemma example_line_constructed:
  "example_line a b s with_tip no_origin =
   init_segment (init_attributes
     ((default_config (Some [a, b, s]))\<lparr>kw_include_tip := with_tip,
        kw_exclude_origin_tick := no_origin\<rparr>) a b s)"
  by (simp add: example_line_def init_segment_def init_attributes_def default_config_def
      truthy_def add_tip_def scale_def scale_about_def center_def get_center_def RIGHT_def
      Let_def field_simps)

lemmas tick_eval = get_tick_range_def effective_x_max_def example_line_def arange_def
  unique_def upt_rec Let_def

subsection \<open>The claims about \<^verbatim>\<open>get_tick_range\<close>\<close>







text \<open>
  C5. With \<open>exclude_origin_tick\<close> set on an interval that spans or touches zero (positive
  step), both progressions start at \<open>step\<close> instead of \<open>0\<close>, and zero is not a tick. For
  \<^verbatim>\<open>x_range = [-4, 4, 2]\<close> the ticks are \<open>-4, -2, 2, 4\<close>.
\<close>

theorem origin_excluded_tick_range:
  "(\<forall>self. x_min self \<le> 0 \<and> 0 \<le> x_max self \<and> 0 < x_step self \<and> exclude_origin_tick self \<longrightarrow>
      get_tick_range self = Inr (sorted_list_of_set
        ({- (x_step self + real k * x_step self) | k.
            x_step self + real k * x_step self < \<bar>x_min self\<bar> + 1 / 1000000} \<union>
         {x_step self + real k * x_step self | k.
            x_step self + real k * x_step self < effective_x_max self}))
      \<and> (\<forall>ts. get_tick_range self = Inr ts \<longrightarrow> 0 \<notin> set ts))
   \<and> get_tick_range (example_line (-4) 4 2 False True) = Inr [-4, -2, 2, 4]"
proof (intro conjI allI impI)
  fix self :: number_line
  assume h: "x_min self \<le> 0 \<and> 0 \<le> x_max self \<and> 0 < x_step self \<and> exclude_origin_tick self"
  then have ns: "\<not> ((x_min self < effective_x_max self \<and> effective_x_max self < 0) \<or>
                 (x_max self > x_min self \<and> x_min self > 0))"
    by (auto simp: effective_x_max_def)
  from h have st: "x_step self = (if exclude_origin_tick self then 0 + x_step self else 0)" by simp
  from h have s: "0 < x_step self" by simp
  let ?S = "{- (x_step self + real k * x_step self) | k.
            x_step self + real k * x_step self < \<bar>x_min self\<bar> + 1 / 1000000} \<union>
         {x_step self + real k * x_step self | k.
            x_step self + real k * x_step self < effective_x_max self}"
  show g: "get_tick_range self = Inr (sorted_list_of_set ?S)"
    using straddle_set [OF ns s st] by simp
  fix ts assume t: "get_tick_range self = Inr ts"
  have pos: "\<And>k. 0 < x_step self + real k * x_step self"
    using s by (simp add: add_pos_nonneg)
  have "finite ?S"
  proof -
    have "?S = set (map (\<lambda>v. v * (-1)) (map (\<lambda>k. x_step self + real k * x_step self) [0..<nat \<lceil>(\<bar>x_min self\<bar> + 1 / 1000000 - x_step self) / x_step self\<rceil>])
        @ map (\<lambda>k. x_step self + real k * x_step self) [0..<nat \<lceil>(effective_x_max self - x_step self) / x_step self\<rceil>])"
      unfolding set_negated_append set_arange_upt [OF s] image_uminus_Collect ..
    then show ?thesis by (simp only: finite_set)
  qed
  then have "set ts = ?S" using g t by simp
  moreover have "0 \<notin> ?S"
  proof
    assume "0 \<in> ?S"
    then obtain k where "0 = - (x_step self + real k * x_step self) \<or>
        0 = x_step self + real k * x_step self"
      by blast
    with pos [of k] show False by linarith
  qed
  ultimately show "0 \<notin> set ts" by simp
next
  show "get_tick_range (example_line (-4) 4 2 False True) = Inr [-4, -2, 2, 4]"
    by (simp add: tick_eval)
qed

theorem origin_excluded_tick_range_witness:
  "x_min (example_line (-6) 6 3 False True) \<le> 0 \<and>
   0 \<le> x_max (example_line (-6) 6 3 False True) \<and>
   0 < x_step (example_line (-6) 6 3 False True) \<and>
   exclude_origin_tick (example_line (-6) 6 3 False True) \<and>
   get_tick_range (example_line (-6) 6 3 False True) = Inr [-6, -3, 3, 6] \<and>
   0 \<notin> set [-6, -3, 3, 6 :: real]"
  using origin_excluded_tick_range [THEN conjunct1, rule_format,
      of "example_line (-6) 6 3 False True", THEN conjunct2, rule_format, of "[-6, -3, 3, 6]"]
  by (simp add: tick_eval)








text \<open>
  C9. On an interval that lies on one side of zero (\<open>x_max > x_min > 0\<close>, or
  \<open>x_min <\<close> effective bound \<open>< 0\<close>) the tick range does not depend on
  \<open>exclude_origin_tick\<close>: two instances that differ in that flag only have the same
  tick range (the same error, when the step is zero).
\<close>

theorem tick_range_ignores_origin_flag_on_one_side:
  "(x_max self > x_min self \<and> x_min self > 0) \<or>
   (x_min self < effective_x_max self \<and> effective_x_max self < 0) \<Longrightarrow>
   get_tick_range (self\<lparr>exclude_origin_tick := True\<rparr>) =
   get_tick_range (self\<lparr>exclude_origin_tick := False\<rparr>)"
  by (auto simp: get_tick_range_def effective_x_max_def Let_def)

theorem tick_range_ignores_origin_flag_on_one_side_witness:
  "((x_max (example_line 2 10 2 False False) > x_min (example_line 2 10 2 False False) \<and>
     x_min (example_line 2 10 2 False False) > 0) \<or>
    (x_min (example_line 2 10 2 False False) < effective_x_max (example_line 2 10 2 False False) \<and>
     effective_x_max (example_line 2 10 2 False False) < 0)) \<and>
   get_tick_range ((example_line 2 10 2 False False)\<lparr>exclude_origin_tick := True\<rparr>) =
   get_tick_range ((example_line 2 10 2 False False)\<lparr>exclude_origin_tick := False\<rparr>)"
  using tick_range_ignores_origin_flag_on_one_side [of "example_line 2 10 2 False False"]
  by (simp add: example_line_def)

section \<open>Properties of the coordinate transforms\<close>

subsection \<open>Auxiliary facts\<close>










lemma add_ticks_Inr:
  "add_ticks self = Inr self' \<Longrightarrow> \<exists>ts. self' = self\<lparr>ticks := Some ts\<rparr>"
  by (auto simp: add_ticks_def Let_def split: sum.splits)










lemma rotate_range: "x_min (rotate t self) = x_min self" "x_max (rotate t self) = x_max self"
  by (simp_all add: rotate_def split: option.splits)






lemma NumberLine_init_Inr:
  assumes "NumberLine_init gw cfg = Inr self"
  obtains a b st self4 where "normalized_x_range cfg = [a, b, st]"
    and "(if include_ticks (init_segment (init_attributes cfg a b st))
          then add_ticks (init_segment (init_attributes cfg a b st))
          else Inr (init_segment (init_attributes cfg a b st))) = Inr self4"
    and "(if include_numbers (rotate (rotation self4) self4) \<or>
             numbers_to_include (rotate (rotation self4) self4) \<noteq> None
          then add_numbers gw (rotate (rotation self4) self4)
                 (numbers_to_include (rotate (rotation self4) self4))
                 (Some (numbers_to_exclude (rotate (rotation self4) self4)))
          else Inr (rotate (rotation self4) self4)) = Inr self"
  using assms unfolding NumberLine_init_def Let_def
  by (auto split: list.splits sum.splits)

lemmas init_eval = NumberLine_init_def normalized_x_range_def init_attributes_def
  init_segment_def default_config_def truthy_def add_tip_def add_ticks_def get_tick_def
  number_to_point_def rotate_def rotate_about_def scale_def scale_about_def center_def
  get_center_def set_length_def get_length_def fdiv_def get_unit_size_def
  interpolate_vec_def RIGHT_def DOWN_def LEFT_def UP_def ORIGIN_def
  get_tick_range_def effective_x_max_def arange_def unique_def upt_rec Let_def
  add_numbers_def get_number_mobject_def

subsection \<open>The round trip\<close>




section \<open>Properties of construction and labelling\<close>

subsection \<open>Auxiliary facts\<close>



lemma init_segment_attributes:
  "x_min (init_segment self) = x_min self"
  "x_max (init_segment self) = x_max self"
  "x_step (init_segment self) = x_step self"
  "include_ticks (init_segment self) = include_ticks self"
  "exclude_origin_tick (init_segment self) = exclude_origin_tick self"
  "include_numbers (init_segment self) = include_numbers self"
  "numbers_to_include (init_segment self) = numbers_to_include self"
  "numbers_to_exclude (init_segment self) = numbers_to_exclude self"
  by (simp_all add: init_segment_def Let_def add_tip_def)

lemma rotate_attributes:
  "x_step (rotate t self) = x_step self"
  "include_numbers (rotate t self) = include_numbers self"
  "numbers_to_include (rotate t self) = numbers_to_include self"
  "numbers_to_exclude (rotate t self) = numbers_to_exclude self"
  "numbers (rotate t self) = numbers self"
  by (simp_all add: rotate_def split: option.splits)

lemma add_numbers_loop_numbers:
  "add_numbers_loop gw self ex xs = Inr ls \<Longrightarrow>
   map label_number ls = filter (\<lambda>x. x \<notin> set ex) xs"
proof (induction xs arbitrary: ls)
  case Nil
  then show ?case by simp
next
  case (Cons x xs)
  show ?case
  proof (cases "x \<in> set ex")
    case True
    with Cons show ?thesis by simp
  next
    case False
    with Cons.prems obtain l ls' where l: "get_number_mobject gw self x None None = Inr l"
      and r: "add_numbers_loop gw self ex xs = Inr ls'" and ls: "ls = l # ls'"
      by (auto split: sum.splits)
    from l have "label_number l = x"
      by (auto simp: get_number_mobject_def Let_def split: sum.splits)
    with Cons.IH [OF r] False ls show ?thesis by simp
  qed
qed

lemma number_to_point_total:
  "x_max self \<noteq> x_min self \<Longrightarrow> \<exists>p. number_to_point self x = Inr p"
  by (simp add: number_to_point_def Let_def)

lemma add_numbers_loop_total:
  assumes "x_max self \<noteq> x_min self"
  shows "\<exists>ls. add_numbers_loop gw self ex xs = Inr ls"
proof (induction xs)
  case Nil
  show ?case by simp
next
  case (Cons x xs)
  from number_to_point_total [OF assms, of x] obtain p where "number_to_point self x = Inr p" ..
  then have "\<exists>l. get_number_mobject gw self x None None = Inr l"
    by (simp add: get_number_mobject_def Let_def)
  with Cons show ?case by auto
qed

lemma add_ticks_loop_total:
  assumes "x_max self \<noteq> x_min self"
  shows "\<exists>ts. add_ticks_loop self el xs = Inr ts"
proof (induction xs)
  case Nil
  show ?case by simp
next
  case (Cons x xs)
  from number_to_point_total [OF assms, of x] obtain p where "number_to_point self x = Inr p" ..
  then obtain t where
    "get_tick self x (Some (if x \<in> set (numbers_with_elongated_ticks self)
        then el else tick_size self)) = Inr t"
    by (simp add: get_tick_def Let_def)
  moreover from Cons obtain ts where "add_ticks_loop self el xs = Inr ts" ..
  ultimately show ?case by (simp add: Let_def)
qed

lemma get_tick_range_total: "x_step self \<noteq> 0 \<Longrightarrow> \<exists>ts. get_tick_range self = Inr ts"
  by (simp add: get_tick_range_def Let_def arange_def)

lemma add_ticks_total:
  "x_step self \<noteq> 0 \<Longrightarrow> x_max self \<noteq> x_min self \<Longrightarrow> \<exists>self'. add_ticks self = Inr self'"
proof -
  assume s: "x_step self \<noteq> 0" and w: "x_max self \<noteq> x_min self"
  from get_tick_range_total [OF s] obtain xs where x: "get_tick_range self = Inr xs" ..
  from add_ticks_loop_total [OF w] obtain ts
    where "add_ticks_loop self (tick_size self * longer_tick_multiple self) xs = Inr ts" ..
  with x show ?thesis by (simp add: add_ticks_def Let_def)
qed

lemma add_numbers_total:
  "x_step self \<noteq> 0 \<Longrightarrow> x_max self \<noteq> x_min self \<Longrightarrow>
   \<exists>self'. add_numbers gw self xv ex = Inr self'"
proof -
  assume s: "x_step self \<noteq> 0" and w: "x_max self \<noteq> x_min self"
  from get_tick_range_total [OF s] obtain ts where t: "get_tick_range self = Inr ts" ..
  then obtain xs where x: "(case xv of None \<Rightarrow> get_tick_range self | Some xs \<Rightarrow> Inr xs) = Inr xs"
    by (cases xv) auto
  from add_numbers_loop_total [OF w] obtain ls where
    "add_numbers_loop gw self (case ex of None \<Rightarrow> numbers_to_exclude self | Some e \<Rightarrow> e) xs = Inr ls" ..
  with x show ?thesis by (simp add: add_numbers_def Let_def)
qed

lemma add_numbers_given:
  "add_numbers gw self (Some xs) (Some ex) = Inr self' \<Longrightarrow>
   \<exists>ls. numbers self' = Some ls \<and> add_numbers_loop gw self ex xs = Inr ls"
  by (auto simp: add_numbers_def Let_def split: sum.splits)

subsection \<open>Errors at construction\<close>




subsection \<open>Labels\<close>

text \<open>
  C7. \<^verbatim>\<open>get_number_mobject\<close> places the label in the direction it is given, but decides
  the shift by half the width of the leading glyph from \<open>x < 0\<close> and the horizontal
  component of the configured \<open>label_direction\<close>. For \<open>x = -3\<close> on a line configured with
  \<open>DOWN\<close>, a label placed to the \<open>LEFT\<close> is shifted; on a line configured with \<open>LEFT\<close>, a
  label placed \<open>DOWN\<close> is not.
\<close>

theorem sign_shift_reads_configured_direction:
  "component0 LEFT \<noteq> 0 \<and> component0 DOWN = 0 \<and> (-3::real) < 0 \<and>
   (case NumberLine_init (\<lambda>x k. k) (default_config (Some [-4, 4, 2])) of
      Inl e \<Rightarrow> False
    | Inr self \<Rightarrow>
        label_direction self = DOWN \<and>
        map_sum id label_dir (get_number_mobject (\<lambda>x k. k) self (-3) (Some LEFT) None) =
          Inr LEFT \<and>
        map_sum id label_shift (get_number_mobject (\<lambda>x k. k) self (-3) (Some LEFT) None) =
          Inr (smul (3 / 8) LEFT)) \<and>
   (case NumberLine_init (\<lambda>x k. k)
           ((default_config (Some [-4, 4, 2]))\<lparr>kw_label_direction := LEFT\<rparr>) of
      Inl e \<Rightarrow> False
    | Inr self \<Rightarrow>
        label_direction self = LEFT \<and>
        map_sum id label_dir (get_number_mobject (\<lambda>x k. k) self (-3) (Some DOWN) None) =
          Inr DOWN \<and>
        map_sum id label_shift (get_number_mobject (\<lambda>x k. k) self (-3) (Some DOWN) None) =
          Inr ORIGIN)"
  by (simp add: init_eval)

text \<open>
  C10. When \<^verbatim>\<open>numbers_to_include\<close> is given, a constructed line has number labels, also
  with \<open>include_numbers\<close> false, and the labelled values are the members of
  \<^verbatim>\<open>numbers_to_include\<close> that are not in \<^verbatim>\<open>numbers_to_exclude\<close>, in their order; the tick
  range is not consulted. Construction succeeds whenever the interval is not degenerate
  and the step is not zero.
\<close>

theorem numbers_to_include_labelled:
  "(\<forall>gw cfg self xs. NumberLine_init gw cfg = Inr self \<and> kw_numbers_to_include cfg = Some xs \<longrightarrow>
      (\<exists>ls. numbers self = Some ls \<and>
         map label_number ls =
           filter (\<lambda>x. x \<notin> set (case kw_numbers_to_exclude cfg of None \<Rightarrow> [] | Some ex \<Rightarrow> ex)) xs)) \<and>
   (\<forall>gw cfg a b s. normalized_x_range cfg = [a, b, s] \<and> a \<noteq> b \<and> s \<noteq> 0 \<longrightarrow>
      \<not> isl (NumberLine_init gw cfg))"
proof (intro conjI allI impI)
  fix gw cfg self xs
  assume h: "NumberLine_init gw cfg = Inr self \<and> kw_numbers_to_include cfg = Some xs"
  let ?ex = "case kw_numbers_to_exclude cfg of None \<Rightarrow> [] | Some ex \<Rightarrow> ex"
  from h obtain a b st self4 where
    t: "(if include_ticks (init_segment (init_attributes cfg a b st))
          then add_ticks (init_segment (init_attributes cfg a b st))
          else Inr (init_segment (init_attributes cfg a b st))) = Inr self4"
    and n: "(if include_numbers (rotate (rotation self4) self4) \<or>
             numbers_to_include (rotate (rotation self4) self4) \<noteq> None
          then add_numbers gw (rotate (rotation self4) self4)
                 (numbers_to_include (rotate (rotation self4) self4))
                 (Some (numbers_to_exclude (rotate (rotation self4) self4)))
          else Inr (rotate (rotation self4) self4)) = Inr self"
    by (blast elim: NumberLine_init_Inr)
  let ?self5 = "rotate (rotation self4) self4"
  from t h have "numbers_to_include self4 = Some xs \<and> numbers_to_exclude self4 = ?ex"
    by (auto simp: init_segment_attributes init_attributes_def split: if_splits
        dest!: add_ticks_Inr)
  then have i: "numbers_to_include ?self5 = Some xs" and e: "numbers_to_exclude ?self5 = ?ex"
    by (simp_all add: rotate_attributes)
  from n have "add_numbers gw ?self5 (Some xs) (Some ?ex) = Inr self"
    by (simp add: i e)
  then obtain ls where "numbers self = Some ls" "add_numbers_loop gw ?self5 ?ex xs = Inr ls"
    by (blast dest: add_numbers_given)
  then show "\<exists>ls. numbers self = Some ls \<and> map label_number ls = filter (\<lambda>x. x \<notin> set ?ex) xs"
    by (blast dest: add_numbers_loop_numbers)
next
  fix gw cfg a b s
  assume h: "normalized_x_range cfg = [a, b, s] \<and> a \<noteq> b \<and> s \<noteq> 0"
  let ?self3 = "init_segment (init_attributes cfg a b s)"
  have f: "x_step ?self3 \<noteq> 0" "x_max ?self3 \<noteq> x_min ?self3"
    using h by (auto simp: init_segment_attributes init_attributes_def)
  obtain self4 where t: "(if include_ticks ?self3 then add_ticks ?self3 else Inr ?self3) = Inr self4"
    and f4: "x_step self4 \<noteq> 0" "x_max self4 \<noteq> x_min self4"
  proof (cases "include_ticks ?self3")
    case True
    from add_ticks_total [OF f] obtain self4 where a: "add_ticks ?self3 = Inr self4" ..
    then obtain ts where "self4 = ?self3\<lparr>ticks := Some ts\<rparr>" by (blast dest: add_ticks_Inr)
    with f have "x_step self4 \<noteq> 0" "x_max self4 \<noteq> x_min self4" by simp_all
    with a True show ?thesis by (intro that [of self4]) simp_all
  next
    case False
    with f show ?thesis by (intro that [of ?self3]) simp_all
  qed
  let ?self5 = "rotate (rotation self4) self4"
  have f5: "x_step ?self5 \<noteq> 0" "x_max ?self5 \<noteq> x_min ?self5"
    using f4 by (simp_all add: rotate_attributes rotate_range)
  from add_numbers_total [OF f5] obtain self' where
    "add_numbers gw ?self5 (numbers_to_include ?self5) (Some (numbers_to_exclude ?self5)) = Inr self'" ..
  then show "\<not> isl (NumberLine_init gw cfg)"
    using h t by (auto simp: NumberLine_init_def Let_def)
qed

theorem numbers_to_include_labelled_witness:
  "kw_numbers_to_include ((default_config (Some [-2, 2, 1]))\<lparr>kw_length := Some 8,
        kw_numbers_to_include := Some [-1, 1, 3], kw_numbers_to_exclude := Some [1]\<rparr>) =
     Some [-1, 1, 3] \<and>
   \<not> kw_include_numbers ((default_config (Some [-2, 2, 1]))\<lparr>kw_length := Some 8,
        kw_numbers_to_include := Some [-1, 1, 3], kw_numbers_to_exclude := Some [1]\<rparr>) \<and>
   (case NumberLine_init (\<lambda>x k. k) ((default_config (Some [-2, 2, 1]))\<lparr>kw_length := Some 8,
        kw_numbers_to_include := Some [-1, 1, 3], kw_numbers_to_exclude := Some [1]\<rparr>) of
      Inl e \<Rightarrow> False
    | Inr self \<Rightarrow> map_option (map label_number) (numbers self) = Some [-1, 3])"
proof -
  let ?cfg = "(default_config (Some [-2, 2, 1]))\<lparr>kw_length := Some 8,
        kw_numbers_to_include := Some [-1, 1, 3], kw_numbers_to_exclude := Some [1]\<rparr>"
  have n: "normalized_x_range ?cfg = [-2, 2, 1] \<and> (-2::real) \<noteq> 2 \<and> (1::real) \<noteq> 0"
    by (simp add: normalized_x_range_def default_config_def)
  from numbers_to_include_labelled [THEN conjunct2, rule_format, OF n, of "\<lambda>x k. k"]
  obtain self where i: "NumberLine_init (\<lambda>x k. k) ?cfg = Inr self"
    by (cases "NumberLine_init (\<lambda>x k. k) ?cfg") auto
  have k: "kw_numbers_to_include ?cfg = Some [-1, 1, 3]" by (simp add: default_config_def)
  from numbers_to_include_labelled [THEN conjunct1, rule_format, OF conjI [OF i k]]
  obtain ls where "numbers self = Some ls"
    "map label_number ls = filter (\<lambda>x. x \<notin> set (case kw_numbers_to_exclude ?cfg of None \<Rightarrow> [] | Some ex \<Rightarrow> ex)) [-1, 1, 3]"
    by blast
  then show ?thesis using i by (simp add: default_config_def)
qed

end
